theory Spec2Isabelle
  imports Complex_Main
begin

section \<open>Data model of \<open>src/inchPrice.ts\<close>\<close>

text \<open>
  The file under verification is \<open>src/inchPrice.ts\<close>: the quote URL builder
  \<open>get1inchQuoteCallUrl\<close>, the evaluator \<open>checkArbitrage\<close> and the route extraction
  \<open>getMaxPart\<close>, \<open>getProtocols\<close>, \<open>getRoutes\<close>.

  Strings are lists of characters; symbols, addresses and amounts are ASCII. Exceptions
  are values: a function that can throw returns \<open>error + 'a\<close>, with \<open>Inl\<close> for the
  exception.

  A finite JavaScript \<open>number\<close> is a double, modelled by the rational it denotes. The
  \<open>part\<close> of a split comes from a JSON body, so it is finite, and \<open><\<close> on finite doubles
  is \<open><\<close> on these rationals. The arithmetic on the configured amounts (the rounding of
  \<open>loanAmount + diffAmount\<close> and the digits \<open>toString\<close> prints) is modelled in the section
  on JavaScript numbers.
\<close>

datatype error =
  TypeError
  | InvalidDecimalSize
  | InvalidDecimalValue
  | FractionalComponentExceedsDecimals
  | InvalidBigNumberString

text \<open>
  \<open>IRoute\<close> (\<open>./interfaces/main\<close>) and \<open>IProtocol\<close> (\<open>./interfaces/inch\<close>) are
  interfaces; the fields are those the code reads and writes. An \<open>IProtocol\<close> has the
  two fields of an \<open>IRoute\<close> and the \<open>part\<close> of the hop's volume it takes.
\<close>

record IRoute =
  name :: string
  toTokenAddress :: string

record IProtocol = IRoute +
  part :: rat

record IToken =
  symbol :: string
  address :: string
  decimals :: nat

text \<open>The two entries of the \<open>ERC20Token\<close> table (\<open>./constrants/addresses\<close>) that
  \<open>getRoutes\<close> reads; the table itself is a parameter of the model.\<close>

record ERC20Token =
  MATIC :: IToken
  WMATIC :: IToken

section \<open>Route extraction\<close>

text \<open>
  \<^verbatim>\<open>
  const getMaxPart = (onehop: IProtocol[]): IProtocol => {
    let maxPart = 0;
    let key = 0;
    onehop.forEach((protocol, index) => {
      if (maxPart < protocol.part) { maxPart = protocol.part; key = index; }
    });
    return onehop[key];
  };
  \<close>
  \<open>getMaxPart_forEach\<close> is the \<open>forEach\<close>: it runs over the remaining elements with the
  current \<open>index\<close> and the two mutable locals \<open>(maxPart, key)\<close>. On an empty hop
  \<open>onehop[0]\<close> is \<open>undefined\<close>, here \<open>None\<close>.
\<close>

fun getMaxPart_forEach :: "IProtocol list \<Rightarrow> nat \<Rightarrow> rat \<times> nat \<Rightarrow> rat \<times> nat" where
  "getMaxPart_forEach [] index (maxPart, key) = (maxPart, key)"
| "getMaxPart_forEach (protocol # rest) index (maxPart, key) =
     (if maxPart < part protocol
      then getMaxPart_forEach rest (Suc index) (part protocol, index)
      else getMaxPart_forEach rest (Suc index) (maxPart, key))"

definition getMaxPart_key :: "IProtocol list \<Rightarrow> nat" where
  "getMaxPart_key onehop = snd (getMaxPart_forEach onehop 0 (0, 0))"

definition getMaxPart :: "IProtocol list \<Rightarrow> IProtocol option" where
  "getMaxPart onehop =
     (let key = getMaxPart_key onehop
      in if key < length onehop then Some (onehop ! key) else None)"

text \<open>
  \<^verbatim>\<open>
  const getProtocols = (protocols: IProtocol[][][]): IRoute[] => {
    let route: IRoute[] = [];
    const mainRoute = protocols[0];
    for (const onehop of mainRoute) {
      const besthop = getMaxPart(onehop);
      route.push({ name: besthop.name, toTokenAddress: besthop.toTokenAddress });
    }
    return route;
  };
  \<close>
  Iterating over \<open>undefined\<close> (an empty \<open>protocols\<close>) and reading \<open>besthop.name\<close> of
  \<open>undefined\<close> (an empty hop) both throw a \<open>TypeError\<close>.
\<close>

fun getProtocols_for :: "IProtocol list list \<Rightarrow> IRoute list \<Rightarrow> error + IRoute list" where
  "getProtocols_for [] route = Inr route"
| "getProtocols_for (onehop # rest) route =
     (case getMaxPart onehop of
        None \<Rightarrow> Inl TypeError
      | Some besthop \<Rightarrow>
          getProtocols_for rest
            (route @ [\<lparr>name = name besthop, toTokenAddress = toTokenAddress besthop\<rparr>]))"

definition getProtocols :: "IProtocol list list list \<Rightarrow> error + IRoute list" where
  "getProtocols protocols =
     (case protocols of
        [] \<Rightarrow> Inl TypeError
      | mainRoute # _ \<Rightarrow> getProtocols_for mainRoute [])"

text \<open>
  Modelled from the spec: \<open>replaceTokenAddress\<close> of \<open>./utils\<close> is not among the sources.
  The spec's normalization pass: if the address equals the configured native address,
  it is rewritten to the configured wrapped address; every other address passes through
  unchanged.
\<close>

definition replaceTokenAddress :: "string \<Rightarrow> string \<Rightarrow> string \<Rightarrow> string" where
  "replaceTokenAddress token address' newAddress =
     (if token = address' then newAddress else token)"

text \<open>
  \<^verbatim>\<open>
  const getRoutes = (protocols: IProtocol[][][]): IRoute[] => {
    let routes = getProtocols(protocols);
    for (const route of routes) {
      route.toTokenAddress = replaceTokenAddress(
        route.toTokenAddress, ERC20Token.MATIC.address, ERC20Token.WMATIC.address);
    }
    return routes;
  };
  \<close>
  The steps are fresh objects made by \<open>getProtocols\<close>, so the in-place update is a map.
\<close>

definition getRoutes :: "ERC20Token \<Rightarrow> IProtocol list list list \<Rightarrow> error + IRoute list" where
  "getRoutes tokens protocols =
     (case getProtocols protocols of
        Inl e \<Rightarrow> Inl e
      | Inr routes \<Rightarrow>
          Inr (map (\<lambda>route. route\<lparr>toTokenAddress :=
                      replaceTokenAddress (toTokenAddress route)
                        (address (MATIC tokens)) (address (WMATIC tokens))\<rparr>) routes))"

section \<open>JavaScript numbers\<close>

text \<open>
  A finite \<open>number\<close> is an IEEE 754 double, here the rational it denotes. \<open>toNumber q\<close> is
  the Number value for the real \<open>q\<close> (a numeric literal, or the exact result of an
  arithmetic operation): \<open>q\<close> rounded to the nearest double, ties to the even
  significand, and to an infinity from \<open>2^1024 - 2^970\<close> on.
  \<^item> \<open>toThe b e\<close> is \<open>b\<close> to the integer power \<open>e\<close>;
  \<^item> \<open>digitCount b n\<close> is the number of digits of \<open>n\<close> in base \<open>b\<close>;
  \<^item> \<open>magnitude b x\<close>, for \<open>0 < x\<close>, is the \<open>e\<close> with \<open>b^e \<le> x < b^(e+1)\<close>;
  \<^item> a double in the binade \<open>2^e\<close> is a multiple of \<open>2^(e-52)\<close>, and of \<open>2^-1074\<close> when it
    is subnormal.
\<close>

definition toThe :: "rat \<Rightarrow> int \<Rightarrow> rat" where
  "toThe b e = (if 0 \<le> e then b ^ nat e else 1 / b ^ nat (- e))"

function digitCount :: "int \<Rightarrow> int \<Rightarrow> nat" where
  "digitCount b n = (if n \<le> 0 \<or> b < 2 then 0 else Suc (digitCount b (n div b)))"
  by pat_completeness auto
termination
  by (relation "measure (\<lambda>(b, n). nat n)") (auto intro: int_div_less_self)

declare digitCount.simps [simp del]

definition magnitude :: "int \<Rightarrow> rat \<Rightarrow> int" where
  "magnitude b x =
     (if 1 \<le> x then int (digitCount b \<lfloor>x\<rfloor>) - 1
      else - int (digitCount b (\<lceil>1 / x\<rceil> - 1)))"

definition roundTiesToEven :: "rat \<Rightarrow> int" where
  "roundTiesToEven r =
     (let f = \<lfloor>r\<rfloor>; d = r - of_int f
      in if d < 1 / 2 then f else if 1 / 2 < d then f + 1
         else if even f then f else f + 1)"

datatype Number = Finite rat | PlusInfinity | MinusInfinity | NaN

definition toNumber :: "rat \<Rightarrow> Number" where
  "toNumber q =
     (if q = 0 then Finite 0
      else let p = max (magnitude 2 \<bar>q\<bar> - 52) (- 1074);
               m = roundTiesToEven (\<bar>q\<bar> / toThe 2 p)
           in if 971 < p \<or> (p = 971 \<and> 2 ^ 53 \<le> m)
              then (if 0 < q then PlusInfinity else MinusInfinity)
              else Finite (if 0 < q then of_int m * toThe 2 p else - (of_int m * toThe 2 p)))"

text \<open>\<open>x + y\<close> on numbers: the exact sum of two finite numbers, rounded.\<close>

fun Number_add :: "Number \<Rightarrow> Number \<Rightarrow> Number" where
  "Number_add (Finite a) (Finite b) = toNumber (a + b)"
| "Number_add NaN y = NaN"
| "Number_add x NaN = NaN"
| "Number_add PlusInfinity MinusInfinity = NaN"
| "Number_add MinusInfinity PlusInfinity = NaN"
| "Number_add PlusInfinity y = PlusInfinity"
| "Number_add MinusInfinity y = MinusInfinity"
| "Number_add (Finite a) y = y"

text \<open>
  \<open>Number.prototype.toString\<close> on a finite \<open>x > 0\<close> prints the digits \<open>s\<close> of the decimal
  \<open>s * 10^(n-k)\<close> with the least number \<open>k\<close> of digits whose Number value is \<open>x\<close>; among
  several such decimals the one closest to \<open>x\<close>, and the even \<open>s\<close> of two equally close
  ones. \<open>decimalOfLength x k\<close> is that decimal for a given \<open>k\<close>: the candidates are the
  multiples of \<open>10^(n-k)\<close> next to \<open>x\<close>. Seventeen digits identify every double, so the
  search ends by \<open>k = 17\<close>. \<open>printedDecimal x\<close> is the value of the decimal printed for
  \<open>x\<close>; it is \<open>0.30000000000000004\<close> for the double \<open>0.1 + 0.2\<close>.
\<close>

definition decimalOfLength :: "rat \<Rightarrow> nat \<Rightarrow> rat option" where
  "decimalOfLength x k =
     (let step = toThe 10 (magnitude 10 x + 1 - int k);
          s = \<lfloor>x / step\<rfloor>;
          lo = step * of_int s;
          hi = step * of_int \<lceil>x / step\<rceil>;
          lo_reads_x = (toNumber lo = Finite x);
          hi_reads_x = (toNumber hi = Finite x)
      in if lo_reads_x \<and> hi_reads_x
         then Some (if x - lo < hi - x then lo else if hi - x < x - lo then hi
                    else if even s then lo else hi)
         else if lo_reads_x then Some lo
         else if hi_reads_x then Some hi
         else None)"

fun shortestDecimal_from :: "rat \<Rightarrow> nat list \<Rightarrow> rat" where
  "shortestDecimal_from x [] = x"
| "shortestDecimal_from x (k # ks) =
     (case decimalOfLength x k of Some v \<Rightarrow> v | None \<Rightarrow> shortestDecimal_from x ks)"

definition printedDecimal :: "rat \<Rightarrow> rat" where
  "printedDecimal x =
     (if x = 0 then 0
      else if 0 < x then shortestDecimal_from x [1..<18]
      else - shortestDecimal_from (- x) [1..<18])"

section \<open>Library functions the evaluator calls\<close>

text \<open>
  \<open>Number.prototype.toString\<close> and \<open>BigNumber.toString\<close> on an integer: the decimal
  digits, with a leading \<open>-\<close> for a negative \<open>BigNumber\<close>.
\<close>

fun nat_toString :: "nat \<Rightarrow> string" where
  "nat_toString n =
     (if n < 10 then [char_of (48 + n)]
      else nat_toString (n div 10) @ [char_of (48 + n mod 10)])"

declare nat_toString.simps [simp del]

definition BigNumber_toString :: "int \<Rightarrow> string" where
  "BigNumber_toString v =
     (if v < 0 then CHR ''-'' # nat_toString (nat (- v)) else nat_toString (nat v))"

text \<open>
  \<open>BigNumber.from\<close> of ethers v5 on a string: the string matches
  \<open>/^-?0x[0-9a-f]+$/i\<close> (hexadecimal) or \<open>/^-?[0-9]+$/\<close> (decimal), or the call throws
  "invalid BigNumber string". A prefix \<open>0X\<close> in upper case passes the first test, but
  \<open>toHex\<close> knows the lower-case prefix only and the object it builds makes \<open>lt\<close> and
  \<open>formatUnits\<close> throw; every \<open>BigNumber.from\<close> of the evaluator is followed by one of
  the two, so the exception is raised here.
\<close>

definition isDecimalDigit :: "char \<Rightarrow> bool" where
  "isDecimalDigit c = (48 \<le> (of_char c :: nat) \<and> (of_char c :: nat) \<le> 57)"

definition isHexDigit :: "char \<Rightarrow> bool" where
  "isHexDigit c =
     (isDecimalDigit c
      \<or> (65 \<le> (of_char c :: nat) \<and> (of_char c :: nat) \<le> 70)
      \<or> (97 \<le> (of_char c :: nat) \<and> (of_char c :: nat) \<le> 102))"

definition digitValue :: "char \<Rightarrow> nat" where
  "digitValue c =
     (let k = (of_char c :: nat)
      in if k \<le> 57 then k - 48 else if k \<le> 70 then k - 55 else k - 87)"

definition digitsValue :: "nat \<Rightarrow> string \<Rightarrow> nat" where
  "digitsValue base ds = foldl (\<lambda>n c. base * n + digitValue c) 0 ds"

definition BigNumber_from :: "string \<Rightarrow> error + int" where
  "BigNumber_from s =
     (let negative = (take 1 s = ''-'');
          body = (if negative then drop 1 s else s);
          sign = (if negative then - 1 else 1)
      in if take 2 body = ''0x'' \<and> drop 2 body \<noteq> [] \<and> list_all isHexDigit (drop 2 body)
         then Inr (sign * int (digitsValue 16 (drop 2 body)))
         else if take 2 body = ''0X'' \<and> drop 2 body \<noteq> [] \<and> list_all isHexDigit (drop 2 body)
         then Inl InvalidBigNumberString
         else if body \<noteq> [] \<and> list_all isDecimalDigit body
         then Inr (sign * int (digitsValue 10 body))
         else Inl InvalidBigNumberString)"

text \<open>
  \<open>ethers.utils.parseUnits(x.toString(), decimals)\<close> of ethers v5 for a number \<open>x\<close>, as
  one step on the decimal that \<open>toString\<close> prints.
  \<^item> \<open>getMultiplier\<close> throws "invalid decimal size" above 256 decimals;
  \<^item> \<open>toString\<close> prints \<open>Infinity\<close>, \<open>-Infinity\<close> or \<open>NaN\<close> for the numbers that are not
    finite, and exponent notation from \<open>10^21\<close> on and below \<open>10^-6\<close>; \<open>parseFixed\<close>
    refuses all of them as "invalid decimal value";
  \<^item> \<open>parseFixed\<close> throws "fractional component exceeds decimals" when the fraction
    has more than \<open>decimals\<close> digits, and returns the integer \<open>v * 10^decimals\<close> for the
    printed decimal \<open>v\<close> otherwise.
\<close>

definition parseUnits :: "Number \<Rightarrow> nat \<Rightarrow> error + int" where
  "parseUnits x unitName =
     (if 256 < unitName then Inl InvalidDecimalSize
      else case x of
        Finite q \<Rightarrow>
          (let v = printedDecimal q
           in if 10 ^ 21 \<le> \<bar>v\<bar> \<or> (v \<noteq> 0 \<and> \<bar>v\<bar> < 1 / 10 ^ 6) then Inl InvalidDecimalValue
              else let wei = v * 10 ^ unitName
                   in if of_int \<lfloor>wei\<rfloor> = wei then Inr \<lfloor>wei\<rfloor>
                      else Inl FractionalComponentExceedsDecimals)
      | PlusInfinity \<Rightarrow> Inl InvalidDecimalValue
      | MinusInfinity \<Rightarrow> Inl InvalidDecimalValue
      | NaN \<Rightarrow> Inl InvalidDecimalValue)"

text \<open>
  The presentation values are floating-point numbers: \<open>Number(formatUnits(v, d))\<close>, their
  difference and percentage, printed by \<open>toFixed\<close> and coloured by \<open>chalk\<close> (the colour
  of a difference also depends on \<open>diffAmount\<close>). They are kept as terms over the integers
  and decimals they are computed from, never evaluated; so is the padding of a cell by
  \<open>padStart\<close> and \<open>padEnd\<close>.
\<close>

datatype number = FormatUnits int nat

datatype display =
  Text string
  | ToFixed2 number
  | ChalkDifference number number
  | ChalkPercentage number number
  | PadStart nat display
  | PadEnd nat display

text \<open>
  \<open>ethers.utils.formatUnits(value, decimals)\<close> on a string: \<open>getMultiplier\<close> first, then
  \<open>BigNumber.from(value)\<close>; either may throw.
\<close>

definition formatUnits :: "string \<Rightarrow> nat \<Rightarrow> error + number" where
  "formatUnits s unitName =
     (if 256 < unitName then Inl InvalidDecimalSize
      else case BigNumber_from s of
             Inl e \<Rightarrow> Inl e
           | Inr v \<Rightarrow> Inr (FormatUnits v unitName))"

section \<open>The quote provider and the presentation sink\<close>

text \<open>
  \<open>sendRequest\<close> (\<open>./utils/request\<close>) returns either the provider's JSON body or an
  Axios error object, whose \<open>response\<close> may be undefined; a response carries
  \<open>status\<close>, \<open>statusText\<close> and \<open>data.error\<close>. The amounts of a body are decimal strings.
\<close>

record errorResponse =
  status :: nat
  statusText :: string
  data_error :: string

record QuoteResult =
  res_fromToken :: IToken
  res_toToken :: IToken
  res_fromTokenAmount :: string
  res_toTokenAmount :: string
  res_protocols :: "IProtocol list list list"

datatype resultData =
  AxiosError "errorResponse option"
  | Quote QuoteResult

text \<open>
  The module's imports from \<open>./config\<close>. \<open>loanAmount\<close> and \<open>diffAmount\<close> are the numbers as
  they are written there; the values the code computes with are their doubles,
  \<open>toNumber (loanAmount cfg)\<close> and \<open>toNumber (diffAmount cfg)\<close>.
\<close>

record config =
  chainId :: nat
  protocols :: string
  diffAmount :: rat
  loanAmount :: rat

text \<open>
  What an evaluation does besides returning: calls of \<open>updateRow\<close> (the cells of the
  partial row, in the order of the object literal, and the optional colour) and requests
  to the provider (the URL).
\<close>

datatype color = ColorName string | ColorOf bool

datatype event =
  UpdateRow "(string \<times> display) list" "color option"
  | SendRequest string

type_synonym evaluation =
  "bool \<times> IProtocol list list list option \<times> IProtocol list list list option
    \<times> (display \<times> display \<times> display) option"

section \<open>The evaluator\<close>

text \<open>
  \<open>get1inchQuoteCallUrl(chainId, fromTokenAddress, toTokenAddress, amount)\<close>; the last
  argument here is \<open>amount.toString()\<close>. The chain id is a natural number below \<open>10^21\<close>,
  which \<open>toString\<close> prints by its digits.
\<close>

definition get1inchQuoteCallUrl :: "config \<Rightarrow> nat \<Rightarrow> string \<Rightarrow> string \<Rightarrow> string \<Rightarrow> string" where
  "get1inchQuoteCallUrl cfg chainId' fromTokenAddress toTokenAddress' amount =
     ''https://api.1inch.exchange/v4.0/'' @ nat_toString chainId' @ ''/quote?''
       @ ''fromTokenAddress='' @ fromTokenAddress
       @ ''&toTokenAddress='' @ toTokenAddress'
       @ ''&amount='' @ amount
       @ ''&mainRouteParts=50''
       @ ''&protocols='' @ protocols cfg"

text \<open>The right arrow and the ellipsis of the progress log, in UTF-8.\<close>

definition arrow :: string where
  "arrow = [CHR 0xE2, CHR 0x86, CHR 0x92]"

definition ellipsis :: string where
  "ellipsis = [CHR 0xE2, CHR 0x80, CHR 0xA6]"

text \<open>
  The log of a failed leg (lines 109-117 and 158-166, the same expression):
  \<^verbatim>\<open>
  e.response !== undefined
    ? e.response.status + ": " + e.response.statusText + " (" + e.response.data.error + ")"
    : ""
  \<close>
\<close>

definition errorLog :: "errorResponse option \<Rightarrow> string" where
  "errorLog response =
     (case response of
        Some r \<Rightarrow> nat_toString (status r) @ '': '' @ statusText r @ '' ('' @ data_error r @ '')''
      | None \<Rightarrow> [])"

text \<open>
  The two locals of lines 76-83, \<open>amount\<close> and \<open>amountDiff\<close>:
  \<^verbatim>\<open>
  const amount = ethers.utils.parseUnits(loanAmount.toString(), fromTokenDecimal);
  const amountDiff = ethers.utils.parseUnits(
    (loanAmount + diffAmount).toString(), fromTokenDecimal);
  \<close>
\<close>

definition baseAmount :: "config \<Rightarrow> IToken \<Rightarrow> error + int" where
  "baseAmount cfg fromToken = parseUnits (toNumber (loanAmount cfg)) (decimals fromToken)"

definition thresholdAmount :: "config \<Rightarrow> IToken \<Rightarrow> error + int" where
  "thresholdAmount cfg fromToken =
     parseUnits (Number_add (toNumber (loanAmount cfg)) (toNumber (diffAmount cfg)))
       (decimals fromToken)"

text \<open>
  \<open>checkArbitrage(fromToken, toToken, updateRow)\<close>. The provider is the parameter
  \<open>sendRequest\<close>, a function of the URL and of the provider's state \<open>w\<close>. The result
  is what the call returns or throws, the events in order, and the provider's state.
\<close>

definition checkArbitrage ::
  "config \<Rightarrow> (string \<Rightarrow> 'w \<Rightarrow> resultData \<times> 'w) \<Rightarrow> IToken \<Rightarrow> IToken \<Rightarrow> 'w
    \<Rightarrow> (error + evaluation) \<times> event list \<times> 'w" where
  "checkArbitrage cfg sendRequest fromToken toToken w =
    (let reset = [UpdateRow [(''log'', Text [])] (Some (ColorName ''white''))];
         fromTokenDecimal = decimals fromToken
     in
     case baseAmount cfg fromToken of
       Inl e \<Rightarrow> (Inl e, reset, w)
     | Inr amount \<Rightarrow>
     (case thresholdAmount cfg fromToken of
       Inl e \<Rightarrow> (Inl e, reset, w)
     | Inr amountDiff \<Rightarrow>
     (let firstCallURL =
            get1inchQuoteCallUrl cfg (chainId cfg) (address fromToken) (address toToken)
              (BigNumber_toString amount);
          events1 = reset @
            [UpdateRow [(''log'', Text (''Getting quote for '' @ symbol fromToken @ '' ''
                          @ arrow @ '' '' @ symbol toToken @ ellipsis))] None,
             SendRequest firstCallURL];
          (resultData1, w1) = sendRequest firstCallURL w
      in
      case resultData1 of
        AxiosError response \<Rightarrow>
          (Inr (False, None, None, None),
           events1 @
             [UpdateRow
                [(''fromToken'', PadEnd 6 (Text (symbol fromToken))),
                 (''toToken'', PadEnd 6 (Text (symbol toToken))),
                 (''fromAmount'', PadStart 7 (ToFixed2 (FormatUnits amount fromTokenDecimal))),
                 (''log'', Text (errorLog response))]
                (Some (ColorName ''red''))],
           w1)
      | Quote q1 \<Rightarrow>
      (let firstProtocols = res_protocols q1;
           returnAmount = res_toTokenAmount q1;
           secondCallURL =
             get1inchQuoteCallUrl cfg (chainId cfg) (address toToken) (address fromToken)
               returnAmount;
           events2 = events1 @
             [UpdateRow [(''log'', Text (''Getting quote for '' @ symbol toToken @ '' ''
                           @ arrow @ '' '' @ symbol fromToken @ ellipsis))] None,
              SendRequest secondCallURL];
           (resultData2, w2) = sendRequest secondCallURL w1
       in
       case resultData2 of
         AxiosError response \<Rightarrow>
           (case formatUnits (res_fromTokenAmount q1) (decimals (res_fromToken q1)) of
              Inl e \<Rightarrow> (Inl e, events2, w2)
            | Inr fromAmount \<Rightarrow>
                (Inr (False, None, None, None),
                 events2 @
                   [UpdateRow
                      [(''fromToken'', PadEnd 6 (Text (symbol (res_fromToken q1)))),
                       (''toToken'', PadEnd 6 (Text (symbol toToken))),
                       (''fromAmount'', PadStart 7 (ToFixed2 fromAmount)),
                       (''log'', Text (errorLog response))]
                      (Some (ColorName ''red''))],
                 w2))
       | Quote q2 \<Rightarrow>
       (let secondProtocols = res_protocols q2
        in
        case BigNumber_from (res_toTokenAmount q2) of
          Inl e \<Rightarrow> (Inl e, events2, w2)
        | Inr leg2Amount \<Rightarrow>
        (let isProfitable = (amountDiff < leg2Amount)
         in
         case formatUnits (res_fromTokenAmount q1) (decimals (res_fromToken q1)) of
           Inl e \<Rightarrow> (Inl e, events2, w2)
         | Inr fromTokenAmount \<Rightarrow>
         (case formatUnits (res_toTokenAmount q2) (decimals (res_toToken q2)) of
           Inl e \<Rightarrow> (Inl e, events2, w2)
         | Inr toTokenAmount \<Rightarrow>
             (Inr (isProfitable, Some firstProtocols, Some secondProtocols,
                   Some (ToFixed2 toTokenAmount,
                         ChalkDifference fromTokenAmount toTokenAmount,
                         ChalkPercentage fromTokenAmount toTokenAmount)),
              events2 @
                [UpdateRow
                   [(''fromToken'', PadEnd 6 (Text (symbol (res_fromToken q1)))),
                    (''toToken'', PadEnd 6 (Text (symbol (res_toToken q1)))),
                    (''fromAmount'', PadStart 7 (ToFixed2 fromTokenAmount)),
                    (''toAmount'', PadStart 7 (ToFixed2 toTokenAmount)),
                    (''difference'', PadStart 7 (ChalkDifference fromTokenAmount toTokenAmount)),
                    (''percentage'', PadStart 5 (ChalkPercentage fromTokenAmount toTokenAmount)),
                    (''log'', Text [])]
                   (Some (ColorOf isProfitable))],
              w2))))))))"

text \<open>The requests among the events, in the order they were issued.\<close>

fun requests :: "event list \<Rightarrow> string list" where
  "requests [] = []"
| "requests (SendRequest url # evs) = url # requests evs"
| "requests (UpdateRow cells style # evs) = requests evs"

section \<open>Run-time values\<close>

text \<open>
  \<open>checkArbitrage\<close> is declared to return \<open>IProtocol[][][] | null\<close> in the second and
  third position of its tuple, while \<open>getProtocols\<close> returns an \<open>IRoute[]\<close>. To compare a
  nested split structure with a flattened route, both are read as the JavaScript values
  they are at run time.
\<close>

datatype jsvalue =
  JNumber rat
  | JString string
  | JArray "jsvalue list"
  | JObject "(string \<times> jsvalue) list"

definition js_IRoute :: "IRoute \<Rightarrow> jsvalue" where
  "js_IRoute r =
     JObject [(''name'', JString (name r)), (''toTokenAddress'', JString (toTokenAddress r))]"

definition js_IProtocol :: "IProtocol \<Rightarrow> jsvalue" where
  "js_IProtocol p =
     JObject [(''name'', JString (name p)), (''part'', JNumber (part p)),
              (''toTokenAddress'', JString (toTokenAddress p))]"

definition js_route :: "IRoute list \<Rightarrow> jsvalue" where
  "js_route route = JArray (map js_IRoute route)"

definition js_protocols :: "IProtocol list list list \<Rightarrow> jsvalue" where
  "js_protocols ps =
     JArray (map (\<lambda>mainRoute. JArray (map (\<lambda>onehop. JArray (map js_IProtocol onehop)) mainRoute)) ps)"

section \<open>Example data\<close>

text \<open>
  The end-to-end scenario of the spec: 18 decimals, a loan of 10 and a margin of 0.5 on
  Polygon (chain 137); and a configuration with a loan of 0.1 and a margin of 0.2, whose
  sum is not a double. The provider is scripted: it answers the requests from a list, in
  order, and is unreachable (an error without a response) once the list is used up.
\<close>

definition DAI :: IToken where
  "DAI = \<lparr>symbol = ''DAI'', address = ''0x8f3C'', decimals = 18\<rparr>"

definition WETH :: IToken where
  "WETH = \<lparr>symbol = ''WETH'', address = ''0x7ceB'', decimals = 18\<rparr>"

definition exampleConfig :: config where
  "exampleConfig =
     \<lparr>chainId = 137, protocols = ''POLYGON_QUICKSWAP,POLYGON_SUSHISWAP'',
      diffAmount = 1 / 2, loanAmount = 10\<rparr>"



definition protocolSplit :: "string \<Rightarrow> rat \<Rightarrow> string \<Rightarrow> IProtocol" where
  "protocolSplit n p t = \<lparr>name = n, toTokenAddress = t, part = p\<rparr>"

definition outboundSplits :: "IProtocol list list list" where
  "outboundSplits =
     [[[protocolSplit ''POLYGON_QUICKSWAP'' 30 ''0x2791'', protocolSplit ''POLYGON_SUSHISWAP'' 70 ''0x2791''],
       [protocolSplit ''POLYGON_SUSHISWAP'' 100 ''0x7ceB'']]]"

definition returnSplits :: "IProtocol list list list" where
  "returnSplits = [[[protocolSplit ''POLYGON_QUICKSWAP'' 100 ''0x8f3C'']]]"

definition leg1Quote :: QuoteResult where
  "leg1Quote =
     \<lparr>res_fromToken = DAI, res_toToken = WETH,
      res_fromTokenAmount = ''10000000000000000000'',
      res_toTokenAmount = ''10600000000000000000'',
      res_protocols = outboundSplits\<rparr>"

definition leg2Quote :: "string \<Rightarrow> QuoteResult" where
  "leg2Quote toAmount =
     \<lparr>res_fromToken = WETH, res_toToken = DAI,
      res_fromTokenAmount = ''10600000000000000000'',
      res_toTokenAmount = toAmount,
      res_protocols = returnSplits\<rparr>"

definition insufficientLiquidity :: resultData where
  "insufficientLiquidity =
     AxiosError (Some \<lparr>status = 400, statusText = ''Bad Request'',
                       data_error = ''insufficient liquidity''\<rparr>)"

fun scripted :: "string \<Rightarrow> resultData list \<Rightarrow> resultData \<times> resultData list" where
  "scripted url [] = (AxiosError None, [])"
| "scripted url (r # rs) = (r, rs)"

definition polygonTokens :: ERC20Token where
  "polygonTokens =
     \<lparr>MATIC = \<lparr>symbol = ''MATIC'', address = ''0xEeee'', decimals = 18\<rparr>,
      WMATIC = \<lparr>symbol = ''WMATIC'', address = ''0x0d50'', decimals = 18\<rparr>\<rparr>"

section \<open>Facts about the dominant split\<close>

lemma getMaxPart_forEach_keep:
  "\<forall>p\<in>set xs. part p \<le> m \<Longrightarrow> getMaxPart_forEach xs i (m, k) = (m, k)"
  by (induction xs arbitrary: i) auto

lemma getMaxPart_forEach_first_max:
  "\<exists>p\<in>set xs. m < part p \<Longrightarrow>
   \<exists>j<length xs. getMaxPart_forEach xs i (m, k) = (part (xs ! j), i + j)
      \<and> m < part (xs ! j)
      \<and> (\<forall>p\<in>set xs. part p \<le> part (xs ! j))
      \<and> (\<forall>l<j. part (xs ! l) < part (xs ! j))"
proof (induction xs arbitrary: i m k)
  case Nil
  then show ?case by simp
next
  case (Cons x xs)
  show ?case
  proof (cases "m < part x")
    case True
    show ?thesis
    proof (cases "\<exists>p\<in>set xs. part x < part p")
      case later: True
      from Cons.IH [OF later, of "Suc i" i] obtain j where j: "j < length xs"
        "getMaxPart_forEach xs (Suc i) (part x, i) = (part (xs ! j), Suc i + j)"
        "part x < part (xs ! j)" "\<forall>p\<in>set xs. part p \<le> part (xs ! j)"
        "\<forall>l<j. part (xs ! l) < part (xs ! j)" by blast
      have "\<forall>l<Suc j. part ((x # xs) ! l) < part (xs ! j)"
        using j(3,5) by (auto simp: less_Suc_eq_0_disj)
      with j True show ?thesis
        by (intro exI [of _ "Suc j"]) auto
    next
      case False
      then have "getMaxPart_forEach xs (Suc i) (part x, i) = (part x, i)"
        by (intro getMaxPart_forEach_keep) auto
      with True False show ?thesis
        by (intro exI [of _ 0]) auto
    qed
  next
    case False
    with Cons.prems have later: "\<exists>p\<in>set xs. m < part p" by auto
    from Cons.IH [OF later, of "Suc i" k] obtain j where j: "j < length xs"
        "getMaxPart_forEach xs (Suc i) (m, k) = (part (xs ! j), Suc i + j)"
        "m < part (xs ! j)" "\<forall>p\<in>set xs. part p \<le> part (xs ! j)"
        "\<forall>l<j. part (xs ! l) < part (xs ! j)" by blast
    have "\<forall>l<Suc j. part ((x # xs) ! l) < part (xs ! j)"
      using j(3,5) False by (auto simp: less_Suc_eq_0_disj)
    with j False show ?thesis
      by (intro exI [of _ "Suc j"]) auto
  qed
qed

lemma getProtocols_for_steps:
  "getProtocols_for hops acc = Inr route \<Longrightarrow>
   (\<forall>onehop\<in>set hops. getMaxPart onehop \<noteq> None) \<and>
   route = acc @ map (\<lambda>onehop. \<lparr>name = name (the (getMaxPart onehop)),
                                toTokenAddress = toTokenAddress (the (getMaxPart onehop))\<rparr>) hops"
proof (induction hops arbitrary: acc)
  case Nil
  then show ?case by simp
next
  case (Cons onehop hops)
  from Cons.prems obtain besthop where besthop: "getMaxPart onehop = Some besthop"
    "getProtocols_for hops
       (acc @ [\<lparr>name = name besthop, toTokenAddress = toTokenAddress besthop\<rparr>]) = Inr route"
    by (auto split: option.splits)
  from Cons.IH [OF besthop(2)] besthop(1) show ?case by simp
qed

text \<open>
  C4 (as amended). For every hop in which some split has a strictly positive part,
  \<open>getMaxPart\<close> returns the split at the index \<open>getMaxPart_key\<close>, no split of the hop has a
  larger part, and every split before that index has a strictly smaller part: the first
  occurrence of the largest part is selected.
\<close>

theorem getMaxPart_first_largest:
  assumes "\<exists>p\<in>set onehop. 0 < part p"
  shows "getMaxPart_key onehop < length onehop
    \<and> getMaxPart onehop = Some (onehop ! getMaxPart_key onehop)
    \<and> (\<forall>j<length onehop. part (onehop ! j) \<le> part (onehop ! getMaxPart_key onehop))
    \<and> (\<forall>j<getMaxPart_key onehop. part (onehop ! j) < part (onehop ! getMaxPart_key onehop))"
proof -
  from getMaxPart_forEach_first_max [OF assms, of 0 0] obtain j where j: "j < length onehop"
    "getMaxPart_forEach onehop 0 (0, 0) = (part (onehop ! j), 0 + j)"
    "\<forall>p\<in>set onehop. part p \<le> part (onehop ! j)"
    "\<forall>l<j. part (onehop ! l) < part (onehop ! j)" by blast
  have key: "getMaxPart_key onehop = j"
    using j(2) by (simp add: getMaxPart_key_def)
  show ?thesis
    using j(1,3,4) by (simp add: key getMaxPart_def)
qed

text \<open>
  The hop with parts 30, 70, 70 of the spec has a positive part; the split at index 1 is
  selected, not the one at index 2.
\<close>

theorem getMaxPart_first_largest_witness:
  "(\<exists>p\<in>set [protocolSplit ''A'' 30 ''0x1'', protocolSplit ''B'' 70 ''0x1'', protocolSplit ''C'' 70 ''0x1'']. 0 < part p)
   \<and> getMaxPart_key [protocolSplit ''A'' 30 ''0x1'', protocolSplit ''B'' 70 ''0x1'', protocolSplit ''C'' 70 ''0x1''] = 1
   \<and> getMaxPart [protocolSplit ''A'' 30 ''0x1'', protocolSplit ''B'' 70 ''0x1'', protocolSplit ''C'' 70 ''0x1'']
       = Some (protocolSplit ''B'' 70 ''0x1'')"
proof -
  have pos: "\<exists>p\<in>set [protocolSplit ''A'' 30 ''0x1'', protocolSplit ''B'' 70 ''0x1'', protocolSplit ''C'' 70 ''0x1'']. 0 < part p"
    by (simp add: protocolSplit_def)
  have key: "getMaxPart_key [protocolSplit ''A'' 30 ''0x1'', protocolSplit ''B'' 70 ''0x1'', protocolSplit ''C'' 70 ''0x1''] = 1"
    by (simp add: getMaxPart_key_def protocolSplit_def)
  show ?thesis
    using pos getMaxPart_first_largest [OF pos] by (simp add: key)
qed

text \<open>
  C4 as stated fails on a hop without a positive part: for the parts -3 and -2 the split
  at index 0 is returned, although the split at index 1 has the strictly larger part.
\<close>

theorem getMaxPart_largest_counterexample:
  "getMaxPart [protocolSplit ''A'' (- 3) ''0x1'', protocolSplit ''B'' (- 2) ''0x1''] = Some (protocolSplit ''A'' (- 3) ''0x1'')
   \<and> part (protocolSplit ''A'' (- 3) ''0x1'') < part (protocolSplit ''B'' (- 2) ''0x1'')"
  by (simp add: getMaxPart_def getMaxPart_key_def protocolSplit_def)

text \<open>
  C10. For every non-empty hop in which no split has a strictly positive part, the
  recorded key stays 0 and \<open>getMaxPart\<close> returns the split at index 0, whatever the later
  parts are.
\<close>

theorem getMaxPart_without_positive_part:
  assumes "onehop \<noteq> []" and "\<forall>p\<in>set onehop. part p \<le> 0"
  shows "getMaxPart_key onehop = 0 \<and> getMaxPart onehop = Some (onehop ! 0)"
proof -
  have "getMaxPart_forEach onehop 0 (0, 0) = (0, 0)"
    using assms(2) by (rule getMaxPart_forEach_keep)
  then have "getMaxPart_key onehop = 0"
    by (simp add: getMaxPart_key_def)
  with assms(1) show ?thesis
    by (simp add: getMaxPart_def)
qed

text \<open>A hop with parts -5 and -1: index 0 is returned although index 1 has the larger part.\<close>

theorem getMaxPart_without_positive_part_witness:
  "[protocolSplit ''A'' (- 5) ''0x1'', protocolSplit ''B'' (- 1) ''0x1''] \<noteq> []
   \<and> part (protocolSplit ''A'' (- 5) ''0x1'') \<le> 0 \<and> part (protocolSplit ''B'' (- 1) ''0x1'') \<le> 0
   \<and> part (protocolSplit ''A'' (- 5) ''0x1'') < part (protocolSplit ''B'' (- 1) ''0x1'')
   \<and> getMaxPart_key [protocolSplit ''A'' (- 5) ''0x1'', protocolSplit ''B'' (- 1) ''0x1''] = 0
   \<and> getMaxPart [protocolSplit ''A'' (- 5) ''0x1'', protocolSplit ''B'' (- 1) ''0x1'']
       = Some (protocolSplit ''A'' (- 5) ''0x1'')"
proof -
  have ne: "[protocolSplit ''A'' (- 5) ''0x1'', protocolSplit ''B'' (- 1) ''0x1''] \<noteq> []"
    by simp
  have nonpos: "\<forall>p\<in>set [protocolSplit ''A'' (- 5) ''0x1'', protocolSplit ''B'' (- 1) ''0x1'']. part p \<le> 0"
    by (simp add: protocolSplit_def)
  show ?thesis
    using getMaxPart_without_positive_part [OF ne nonpos] by (simp add: protocolSplit_def)
qed

section \<open>Facts about route extraction\<close>

text \<open>
  C5. Route extraction reads only the first element of the outer sequence: two split
  trees with the same first element give the same result (the same route, or the same
  exception), for \<open>getProtocols\<close> and for \<open>getRoutes\<close>.
\<close>

theorem getProtocols_reads_main_route_only:
  "getProtocols (mainRoute # others) = getProtocols (mainRoute # others')
   \<and> getRoutes tokens (mainRoute # others) = getRoutes tokens (mainRoute # others')"
  by (simp add: getProtocols_def getRoutes_def)

theorem getProtocols_reads_main_route_only_witness:
  "getProtocols (hd outboundSplits # returnSplits) = getProtocols (hd outboundSplits # [])
   \<and> getRoutes polygonTokens (hd outboundSplits # returnSplits)
       = getRoutes polygonTokens (hd outboundSplits # [])"
  using getProtocols_reads_main_route_only [of "hd outboundSplits" returnSplits "[]" polygonTokens]
  by simp



section \<open>Facts about the evaluator\<close>

text \<open>What \<open>checkArbitrage\<close> returns and does on each of its three returning paths.\<close>

lemma checkArbitrage_leg1_failure:
  assumes "baseAmount cfg fromToken = Inr amount"
    and "thresholdAmount cfg fromToken = Inr amountDiff"
    and "sendRequest (get1inchQuoteCallUrl cfg (chainId cfg) (address fromToken)
            (address toToken) (BigNumber_toString amount)) w = (AxiosError response, w1)"
  shows "checkArbitrage cfg sendRequest fromToken toToken w =
    (Inr (False, None, None, None),
     [UpdateRow [(''log'', Text [])] (Some (ColorName ''white'')),
      UpdateRow [(''log'', Text (''Getting quote for '' @ symbol fromToken @ '' ''
                   @ arrow @ '' '' @ symbol toToken @ ellipsis))] None,
      SendRequest (get1inchQuoteCallUrl cfg (chainId cfg) (address fromToken)
            (address toToken) (BigNumber_toString amount)),
      UpdateRow
        [(''fromToken'', PadEnd 6 (Text (symbol fromToken))),
         (''toToken'', PadEnd 6 (Text (symbol toToken))),
         (''fromAmount'', PadStart 7 (ToFixed2 (FormatUnits amount (decimals fromToken)))),
         (''log'', Text (errorLog response))]
        (Some (ColorName ''red''))],
     w1)"
  using assms by (simp add: checkArbitrage_def Let_def)

lemma checkArbitrage_leg2_failure:
  assumes "baseAmount cfg fromToken = Inr amount"
    and "thresholdAmount cfg fromToken = Inr amountDiff"
    and "sendRequest (get1inchQuoteCallUrl cfg (chainId cfg) (address fromToken)
            (address toToken) (BigNumber_toString amount)) w = (Quote q1, w1)"
    and "sendRequest (get1inchQuoteCallUrl cfg (chainId cfg) (address toToken)
            (address fromToken) (res_toTokenAmount q1)) w1 = (AxiosError response, w2)"
    and "formatUnits (res_fromTokenAmount q1) (decimals (res_fromToken q1)) = Inr fromAmount"
  shows "checkArbitrage cfg sendRequest fromToken toToken w =
    (Inr (False, None, None, None),
     [UpdateRow [(''log'', Text [])] (Some (ColorName ''white'')),
      UpdateRow [(''log'', Text (''Getting quote for '' @ symbol fromToken @ '' ''
                   @ arrow @ '' '' @ symbol toToken @ ellipsis))] None,
      SendRequest (get1inchQuoteCallUrl cfg (chainId cfg) (address fromToken)
            (address toToken) (BigNumber_toString amount)),
      UpdateRow [(''log'', Text (''Getting quote for '' @ symbol toToken @ '' ''
                   @ arrow @ '' '' @ symbol fromToken @ ellipsis))] None,
      SendRequest (get1inchQuoteCallUrl cfg (chainId cfg) (address toToken)
            (address fromToken) (res_toTokenAmount q1)),
      UpdateRow
        [(''fromToken'', PadEnd 6 (Text (symbol (res_fromToken q1)))),
         (''toToken'', PadEnd 6 (Text (symbol toToken))),
         (''fromAmount'', PadStart 7 (ToFixed2 fromAmount)),
         (''log'', Text (errorLog response))]
        (Some (ColorName ''red''))],
     w2)"
  using assms by (simp add: checkArbitrage_def Let_def)

lemma checkArbitrage_success:
  assumes "baseAmount cfg fromToken = Inr amount"
    and "thresholdAmount cfg fromToken = Inr amountDiff"
    and "sendRequest (get1inchQuoteCallUrl cfg (chainId cfg) (address fromToken)
            (address toToken) (BigNumber_toString amount)) w = (Quote q1, w1)"
    and "sendRequest (get1inchQuoteCallUrl cfg (chainId cfg) (address toToken)
            (address fromToken) (res_toTokenAmount q1)) w1 = (Quote q2, w2)"
    and "BigNumber_from (res_toTokenAmount q2) = Inr leg2Amount"
    and "formatUnits (res_fromTokenAmount q1) (decimals (res_fromToken q1)) = Inr fromTokenAmount"
    and "formatUnits (res_toTokenAmount q2) (decimals (res_toToken q2)) = Inr toTokenAmount"
  shows "fst (checkArbitrage cfg sendRequest fromToken toToken w) =
    Inr (amountDiff < leg2Amount, Some (res_protocols q1), Some (res_protocols q2),
         Some (ToFixed2 toTokenAmount,
               ChalkDifference fromTokenAmount toTokenAmount,
               ChalkPercentage fromTokenAmount toTokenAmount))"
  using assms by (simp add: checkArbitrage_def Let_def)


lemma checkArbitrage_requests_after_leg1:
  assumes "baseAmount cfg fromToken = Inr amount"
    and "thresholdAmount cfg fromToken = Inr amountDiff"
    and "sendRequest (get1inchQuoteCallUrl cfg (chainId cfg) (address fromToken)
            (address toToken) (BigNumber_toString amount)) w = (Quote q1, w1)"
  shows "requests (fst (snd (checkArbitrage cfg sendRequest fromToken toToken w))) =
    [get1inchQuoteCallUrl cfg (chainId cfg) (address fromToken)
       (address toToken) (BigNumber_toString amount),
     get1inchQuoteCallUrl cfg (chainId cfg) (address toToken)
       (address fromToken) (res_toTokenAmount q1)]"
  using assms
  by (simp add: checkArbitrage_def Let_def split: prod.splits resultData.splits sum.splits)


subsection \<open>The example, evaluated\<close>

lemma number_examples:
  "toNumber 10 = Finite 10"
  "toNumber (1 / 2) = Finite (1 / 2)"
  "Number_add (Finite 10) (Finite (1 / 2)) = Finite (21 / 2)"
  "printedDecimal 10 = 10"
  "printedDecimal (21 / 2) = 21 / 2"
  "toNumber (1 / 10) = Finite (3602879701896397 / 36028797018963968)"
  "toNumber (1 / 5) = Finite (3602879701896397 / 18014398509481984)"
  "Number_add (Finite (3602879701896397 / 36028797018963968))
     (Finite (3602879701896397 / 18014398509481984))
    = Finite (1351079888211149 / 4503599627370496)"
  "printedDecimal (3602879701896397 / 36028797018963968) = 1 / 10"
  "toNumber (21 / 2) = Finite (21 / 2)"
  "toNumber (10808639105689191 / 36028797018963968)
    = Finite (1351079888211149 / 4503599627370496)"
  by code_simp+


lemma nat_toString_examples:
  "nat_toString 137 = ''137''"
  "nat_toString 400 = ''400''"
  by (simp_all add: nat_toString.simps char_of_def bit_0)

lemma BigNumber_toString_base: "BigNumber_toString 10000000000000000000 = ''10000000000000000000''"
  by (simp add: BigNumber_toString_def nat_toString.simps char_of_def bit_0)

lemma example_baseAmount: "baseAmount exampleConfig DAI = Inr 10000000000000000000"
  by (simp add: baseAmount_def parseUnits_def exampleConfig_def DAI_def number_examples)

lemma example_thresholdAmount: "thresholdAmount exampleConfig DAI = Inr 10500000000000000000"
  by (simp add: thresholdAmount_def parseUnits_def exampleConfig_def DAI_def number_examples)





lemma BigNumber_from_examples:
  "BigNumber_from ''10000000000000000000'' = Inr 10000000000000000000"
  "BigNumber_from ''10600000000000000000'' = Inr 10600000000000000000"
  "BigNumber_from ''10700000000000000000'' = Inr 10700000000000000000"
  "BigNumber_from ''10500000000000000001'' = Inr 10500000000000000001"
  "BigNumber_from ''10500000000000000000'' = Inr 10500000000000000000"
  "BigNumber_from ''300000000000000001'' = Inr 300000000000000001"
  "BigNumber_from ''300000000000000041'' = Inr 300000000000000041"
  by (simp_all add: BigNumber_from_def isDecimalDigit_def digitsValue_def digitValue_def)

lemma formatUnits_examples:
  "formatUnits ''10000000000000000000'' 18 = Inr (FormatUnits 10000000000000000000 18)"
  "formatUnits ''10700000000000000000'' 18 = Inr (FormatUnits 10700000000000000000 18)"
  "formatUnits ''10500000000000000001'' 18 = Inr (FormatUnits 10500000000000000001 18)"
  "formatUnits ''10500000000000000000'' 18 = Inr (FormatUnits 10500000000000000000 18)"
  "formatUnits ''300000000000000001'' 18 = Inr (FormatUnits 300000000000000001 18)"
  "formatUnits ''300000000000000041'' 18 = Inr (FormatUnits 300000000000000041 18)"
  by (simp_all add: formatUnits_def BigNumber_from_examples)

lemma example_quotes:
  "res_toTokenAmount leg1Quote = ''10600000000000000000''"
  "res_fromTokenAmount leg1Quote = ''10000000000000000000''"
  "decimals (res_fromToken leg1Quote) = 18"
  "res_protocols leg1Quote = outboundSplits"
  "res_toTokenAmount (leg2Quote a) = a"
  "decimals (res_toToken (leg2Quote a)) = 18"
  "res_protocols (leg2Quote a) = returnSplits"
  by (simp_all add: leg1Quote_def leg2Quote_def DAI_def)

lemma example_routes:
  "getProtocols outboundSplits =
     Inr [\<lparr>name = ''POLYGON_SUSHISWAP'', toTokenAddress = ''0x2791''\<rparr>,
          \<lparr>name = ''POLYGON_SUSHISWAP'', toTokenAddress = ''0x7ceB''\<rparr>]"
  "getProtocols returnSplits =
     Inr [\<lparr>name = ''POLYGON_QUICKSWAP'', toTokenAddress = ''0x8f3C''\<rparr>]"
  by (simp_all add: getProtocols_def getMaxPart_def getMaxPart_key_def protocolSplit_def
        outboundSplits_def returnSplits_def)

section \<open>Properties of the evaluator\<close>






text \<open>
  C2. When the first request fails, the result is \<open>[false, null, null]\<close>, the first
  request is the only one issued, and the provider is left in the state after that one
  request.
\<close>

theorem leg1_failure_short_circuits:
  assumes "baseAmount cfg fromToken = Inr amount"
    and "thresholdAmount cfg fromToken = Inr amountDiff"
    and "sendRequest (get1inchQuoteCallUrl cfg (chainId cfg) (address fromToken)
            (address toToken) (BigNumber_toString amount)) w = (AxiosError response, w1)"
  shows "fst (checkArbitrage cfg sendRequest fromToken toToken w) = Inr (False, None, None, None)
    \<and> requests (fst (snd (checkArbitrage cfg sendRequest fromToken toToken w))) =
        [get1inchQuoteCallUrl cfg (chainId cfg) (address fromToken)
           (address toToken) (BigNumber_toString amount)]
    \<and> snd (snd (checkArbitrage cfg sendRequest fromToken toToken w)) = w1"
  by (simp add: checkArbitrage_leg1_failure [where sendRequest = sendRequest and w = w, OF assms])

text \<open>
  The provider refuses the first request and has a profitable quote ready for a second
  one: the quote is still unread after the evaluation.
\<close>

theorem leg1_failure_short_circuits_witness:
  "baseAmount exampleConfig DAI = Inr 10000000000000000000
   \<and> thresholdAmount exampleConfig DAI = Inr 10500000000000000000
   \<and> scripted (get1inchQuoteCallUrl exampleConfig (chainId exampleConfig) (address DAI)
          (address WETH) (BigNumber_toString 10000000000000000000))
        [insufficientLiquidity, Quote (leg2Quote ''10700000000000000000'')]
       = (insufficientLiquidity, [Quote (leg2Quote ''10700000000000000000'')])
   \<and> fst (checkArbitrage exampleConfig scripted DAI WETH
            [insufficientLiquidity, Quote (leg2Quote ''10700000000000000000'')])
       = Inr (False, None, None, None)
   \<and> requests (fst (snd (checkArbitrage exampleConfig scripted DAI WETH
            [insufficientLiquidity, Quote (leg2Quote ''10700000000000000000'')])))
       = [get1inchQuoteCallUrl exampleConfig (chainId exampleConfig) (address DAI)
            (address WETH) (BigNumber_toString 10000000000000000000)]
   \<and> snd (snd (checkArbitrage exampleConfig scripted DAI WETH
            [insufficientLiquidity, Quote (leg2Quote ''10700000000000000000'')]))
       = [Quote (leg2Quote ''10700000000000000000'')]"
proof -
  have s1: "scripted (get1inchQuoteCallUrl exampleConfig (chainId exampleConfig) (address DAI)
          (address WETH) (BigNumber_toString 10000000000000000000))
        [insufficientLiquidity, Quote (leg2Quote ''10700000000000000000'')]
       = (AxiosError (Some \<lparr>status = 400, statusText = ''Bad Request'',
                              data_error = ''insufficient liquidity''\<rparr>),
          [Quote (leg2Quote ''10700000000000000000'')])"
    by (simp add: insufficientLiquidity_def)
  show ?thesis
    using leg1_failure_short_circuits [where sendRequest = scripted, OF example_baseAmount
        example_thresholdAmount s1]
      example_baseAmount example_thresholdAmount s1
    by (simp add: insufficientLiquidity_def)
qed

text \<open>
  C7. When leg 1 returns a quote, exactly two requests are issued, and the amount of the
  second URL is the \<open>toTokenAmount\<close> string of leg 1's body as it was received: no
  conversion is applied to it, whatever the provider answers to the second request.
\<close>

theorem leg2_quotes_leg1_result_unconverted:
  assumes "baseAmount cfg fromToken = Inr amount"
    and "thresholdAmount cfg fromToken = Inr amountDiff"
    and "sendRequest (get1inchQuoteCallUrl cfg (chainId cfg) (address fromToken)
            (address toToken) (BigNumber_toString amount)) w = (Quote q1, w1)"
  shows "requests (fst (snd (checkArbitrage cfg sendRequest fromToken toToken w))) =
    [get1inchQuoteCallUrl cfg (chainId cfg) (address fromToken)
       (address toToken) (BigNumber_toString amount),
     ''https://api.1inch.exchange/v4.0/'' @ nat_toString (chainId cfg) @ ''/quote?''
       @ ''fromTokenAddress='' @ address toToken
       @ ''&toTokenAddress='' @ address fromToken
       @ ''&amount='' @ res_toTokenAmount q1
       @ ''&mainRouteParts=50''
       @ ''&protocols='' @ protocols cfg]"
  using checkArbitrage_requests_after_leg1 [where sendRequest = sendRequest and w = w, OF assms]
  by (simp add: get1inchQuoteCallUrl_def [of cfg "chainId cfg" "address toToken"])

theorem leg2_quotes_leg1_result_unconverted_witness:
  "baseAmount exampleConfig DAI = Inr 10000000000000000000
   \<and> thresholdAmount exampleConfig DAI = Inr 10500000000000000000
   \<and> scripted (get1inchQuoteCallUrl exampleConfig (chainId exampleConfig) (address DAI)
          (address WETH) (BigNumber_toString 10000000000000000000))
        [Quote leg1Quote, Quote (leg2Quote ''10700000000000000000'')]
       = (Quote leg1Quote, [Quote (leg2Quote ''10700000000000000000'')])
   \<and> res_toTokenAmount leg1Quote = ''10600000000000000000''
   \<and> requests (fst (snd (checkArbitrage exampleConfig scripted DAI WETH
            [Quote leg1Quote, Quote (leg2Quote ''10700000000000000000'')])))
       = [''https://api.1inch.exchange/v4.0/137/quote?fromTokenAddress=0x8f3C&toTokenAddress=0x7ceB&amount=10000000000000000000&mainRouteParts=50&protocols=POLYGON_QUICKSWAP,POLYGON_SUSHISWAP'',
          ''https://api.1inch.exchange/v4.0/137/quote?fromTokenAddress=0x7ceB&toTokenAddress=0x8f3C&amount=10600000000000000000&mainRouteParts=50&protocols=POLYGON_QUICKSWAP,POLYGON_SUSHISWAP'']"
proof -
  have s1: "scripted (get1inchQuoteCallUrl exampleConfig (chainId exampleConfig) (address DAI)
          (address WETH) (BigNumber_toString 10000000000000000000))
        [Quote leg1Quote, Quote (leg2Quote ''10700000000000000000'')]
       = (Quote leg1Quote, [Quote (leg2Quote ''10700000000000000000'')])"
    by simp
  have url: "get1inchQuoteCallUrl exampleConfig (chainId exampleConfig) (address DAI)
      (address WETH) (BigNumber_toString 10000000000000000000)
    = ''https://api.1inch.exchange/v4.0/137/quote?fromTokenAddress=0x8f3C&toTokenAddress=0x7ceB&amount=10000000000000000000&mainRouteParts=50&protocols=POLYGON_QUICKSWAP,POLYGON_SUSHISWAP''"
    by (simp add: get1inchQuoteCallUrl_def exampleConfig_def DAI_def WETH_def
          nat_toString_examples BigNumber_toString_base)
  have run: "requests (fst (snd (checkArbitrage exampleConfig scripted DAI WETH
            [Quote leg1Quote, Quote (leg2Quote ''10700000000000000000'')])))
       = [''https://api.1inch.exchange/v4.0/137/quote?fromTokenAddress=0x8f3C&toTokenAddress=0x7ceB&amount=10000000000000000000&mainRouteParts=50&protocols=POLYGON_QUICKSWAP,POLYGON_SUSHISWAP'',
          ''https://api.1inch.exchange/v4.0/137/quote?fromTokenAddress=0x7ceB&toTokenAddress=0x8f3C&amount=10600000000000000000&mainRouteParts=50&protocols=POLYGON_QUICKSWAP,POLYGON_SUSHISWAP'']"
    using leg2_quotes_leg1_result_unconverted [where sendRequest = scripted, OF example_baseAmount
        example_thresholdAmount s1]
    by (simp only: url) (simp add: example_quotes exampleConfig_def DAI_def WETH_def
          nat_toString_examples)
  show ?thesis
    using example_baseAmount example_thresholdAmount s1 example_quotes(1) run
    by blast
qed

text \<open>
  C8. When a leg fails, the evaluation returns \<open>[false, null, null]\<close> and its last
  \<open>updateRow\<close> call is red and carries the log
  \<open>status + ": " + statusText + " (" + data.error + ")"\<close> of the error's response, or the
  empty string when the error has no response. For a failure of leg 2, leg 1's body
  must have a well-formed \<open>fromTokenAmount\<close>, which is formatted for the same row.
\<close>

theorem failed_leg_log:
  assumes "baseAmount cfg fromToken = Inr amount"
    and "thresholdAmount cfg fromToken = Inr amountDiff"
    and "sendRequest (get1inchQuoteCallUrl cfg (chainId cfg) (address fromToken)
            (address toToken) (BigNumber_toString amount)) w = (AxiosError response, w1)
      \<or> (sendRequest (get1inchQuoteCallUrl cfg (chainId cfg) (address fromToken)
            (address toToken) (BigNumber_toString amount)) w = (Quote q1, w1)
         \<and> sendRequest (get1inchQuoteCallUrl cfg (chainId cfg) (address toToken)
            (address fromToken) (res_toTokenAmount q1)) w1 = (AxiosError response, w2)
         \<and> formatUnits (res_fromTokenAmount q1) (decimals (res_fromToken q1)) = Inr fromAmount)"
  shows "fst (checkArbitrage cfg sendRequest fromToken toToken w) = Inr (False, None, None, None)
    \<and> (\<exists>cells. last (fst (snd (checkArbitrage cfg sendRequest fromToken toToken w)))
                  = UpdateRow cells (Some (ColorName ''red''))
          \<and> map_of cells ''log'' =
              Some (Text (case response of
                            Some r \<Rightarrow> nat_toString (status r) @ '': '' @ statusText r
                                        @ '' ('' @ data_error r @ '')''
                          | None \<Rightarrow> [])))"
  using assms(3)
proof
  assume leg1: "sendRequest (get1inchQuoteCallUrl cfg (chainId cfg) (address fromToken)
            (address toToken) (BigNumber_toString amount)) w = (AxiosError response, w1)"
  show ?thesis
    by (simp add: checkArbitrage_leg1_failure [where sendRequest = sendRequest and w = w,
          OF assms(1,2) leg1] errorLog_def)
next
  assume leg2: "sendRequest (get1inchQuoteCallUrl cfg (chainId cfg) (address fromToken)
            (address toToken) (BigNumber_toString amount)) w = (Quote q1, w1)
         \<and> sendRequest (get1inchQuoteCallUrl cfg (chainId cfg) (address toToken)
            (address fromToken) (res_toTokenAmount q1)) w1 = (AxiosError response, w2)
         \<and> formatUnits (res_fromTokenAmount q1) (decimals (res_fromToken q1)) = Inr fromAmount"
  then have run: "checkArbitrage cfg sendRequest fromToken toToken w =
    (Inr (False, None, None, None),
     [UpdateRow [(''log'', Text [])] (Some (ColorName ''white'')),
      UpdateRow [(''log'', Text (''Getting quote for '' @ symbol fromToken @ '' ''
                   @ arrow @ '' '' @ symbol toToken @ ellipsis))] None,
      SendRequest (get1inchQuoteCallUrl cfg (chainId cfg) (address fromToken)
            (address toToken) (BigNumber_toString amount)),
      UpdateRow [(''log'', Text (''Getting quote for '' @ symbol toToken @ '' ''
                   @ arrow @ '' '' @ symbol fromToken @ ellipsis))] None,
      SendRequest (get1inchQuoteCallUrl cfg (chainId cfg) (address toToken)
            (address fromToken) (res_toTokenAmount q1)),
      UpdateRow
        [(''fromToken'', PadEnd 6 (Text (symbol (res_fromToken q1)))),
         (''toToken'', PadEnd 6 (Text (symbol toToken))),
         (''fromAmount'', PadStart 7 (ToFixed2 fromAmount)),
         (''log'', Text (errorLog response))]
        (Some (ColorName ''red''))],
     w2)"
    using checkArbitrage_leg2_failure [where sendRequest = sendRequest and w = w, OF assms(1,2)]
    by blast
  show ?thesis
    by (simp add: run errorLog_def)
qed

text \<open>
  The scenario of the spec: leg 1 succeeds and the provider answers leg 2 with HTTP 400,
  "insufficient liquidity".
\<close>

theorem failed_leg_log_witness:
  "baseAmount exampleConfig DAI = Inr 10000000000000000000
   \<and> thresholdAmount exampleConfig DAI = Inr 10500000000000000000
   \<and> scripted (get1inchQuoteCallUrl exampleConfig (chainId exampleConfig) (address DAI)
          (address WETH) (BigNumber_toString 10000000000000000000))
        [Quote leg1Quote, insufficientLiquidity] = (Quote leg1Quote, [insufficientLiquidity])
   \<and> scripted (get1inchQuoteCallUrl exampleConfig (chainId exampleConfig) (address WETH)
          (address DAI) (res_toTokenAmount leg1Quote)) [insufficientLiquidity]
       = (insufficientLiquidity, [])
   \<and> formatUnits (res_fromTokenAmount leg1Quote) (decimals (res_fromToken leg1Quote))
       = Inr (FormatUnits 10000000000000000000 18)
   \<and> fst (checkArbitrage exampleConfig scripted DAI WETH [Quote leg1Quote, insufficientLiquidity])
       = Inr (False, None, None, None)
   \<and> (\<exists>cells. last (fst (snd (checkArbitrage exampleConfig scripted DAI WETH
                                  [Quote leg1Quote, insufficientLiquidity])))
                  = UpdateRow cells (Some (ColorName ''red''))
          \<and> map_of cells ''log'' = Some (Text ''400: Bad Request (insufficient liquidity)''))
   \<and> (\<exists>cells. last (fst (snd (checkArbitrage exampleConfig scripted DAI WETH [])))
                  = UpdateRow cells (Some (ColorName ''red''))
          \<and> map_of cells ''log'' = Some (Text []))"
proof -
  have s1: "scripted (get1inchQuoteCallUrl exampleConfig (chainId exampleConfig) (address DAI)
          (address WETH) (BigNumber_toString 10000000000000000000))
        [Quote leg1Quote, insufficientLiquidity] = (Quote leg1Quote, [insufficientLiquidity])"
    by simp
  have s2: "scripted (get1inchQuoteCallUrl exampleConfig (chainId exampleConfig) (address WETH)
          (address DAI) (res_toTokenAmount leg1Quote)) [insufficientLiquidity]
       = (AxiosError (Some \<lparr>status = 400, statusText = ''Bad Request'',
                              data_error = ''insufficient liquidity''\<rparr>), [])"
    by (simp add: insufficientLiquidity_def)
  have f: "formatUnits (res_fromTokenAmount leg1Quote) (decimals (res_fromToken leg1Quote))
       = Inr (FormatUnits 10000000000000000000 18)"
    by (simp add: example_quotes formatUnits_examples)
  have s0: "scripted (get1inchQuoteCallUrl exampleConfig (chainId exampleConfig) (address DAI)
          (address WETH) (BigNumber_toString 10000000000000000000)) []
       = (AxiosError None, [])"
    by simp
  have leg2: "fst (checkArbitrage exampleConfig scripted DAI WETH [Quote leg1Quote, insufficientLiquidity])
       = Inr (False, None, None, None)
   \<and> (\<exists>cells. last (fst (snd (checkArbitrage exampleConfig scripted DAI WETH
                                  [Quote leg1Quote, insufficientLiquidity])))
                  = UpdateRow cells (Some (ColorName ''red''))
          \<and> map_of cells ''log'' = Some (Text ''400: Bad Request (insufficient liquidity)''))"
    using failed_leg_log [where sendRequest = scripted, OF example_baseAmount
        example_thresholdAmount disjI2, OF conjI, OF s1 conjI, OF s2 f]
    by (simp add: nat_toString_examples)
  have unreachable: "\<exists>cells. last (fst (snd (checkArbitrage exampleConfig scripted DAI WETH [])))
                  = UpdateRow cells (Some (ColorName ''red''))
          \<and> map_of cells ''log'' = Some (Text [])"
    using failed_leg_log [where sendRequest = scripted, OF example_baseAmount
        example_thresholdAmount disjI1, OF s0]
    by simp
  show ?thesis
    using example_baseAmount example_thresholdAmount s1 s2 f leg2 unreachable
    by (simp add: insufficientLiquidity_def)
qed

text \<open>
  C3 (as amended). When both legs return a quote (and the evaluation returns), the
  second and third component of the result are the \<open>protocols\<close> of leg 1's and of leg 2's
  body as they were received: \<open>checkArbitrage\<close> does not call the route extraction. The
  extraction \<open>getProtocols\<close>, applied to either structure, returns one step per hop of the
  first alternative, the step of the hop's \<open>getMaxPart\<close> split.
\<close>

theorem routes_returned_as_received:
  assumes "baseAmount cfg fromToken = Inr amount"
    and "thresholdAmount cfg fromToken = Inr amountDiff"
    and "sendRequest (get1inchQuoteCallUrl cfg (chainId cfg) (address fromToken)
            (address toToken) (BigNumber_toString amount)) w = (Quote q1, w1)"
    and "sendRequest (get1inchQuoteCallUrl cfg (chainId cfg) (address toToken)
            (address fromToken) (res_toTokenAmount q1)) w1 = (Quote q2, w2)"
    and "BigNumber_from (res_toTokenAmount q2) = Inr leg2Amount"
    and "formatUnits (res_fromTokenAmount q1) (decimals (res_fromToken q1)) = Inr fromTokenAmount"
    and "formatUnits (res_toTokenAmount q2) (decimals (res_toToken q2)) = Inr toTokenAmount"
  shows "(\<exists>isProfitable shown.
      fst (checkArbitrage cfg sendRequest fromToken toToken w) =
        Inr (isProfitable, Some (res_protocols q1), Some (res_protocols q2), shown))
    \<and> (\<forall>ps\<in>{res_protocols q1, res_protocols q2}. \<forall>route.
          getProtocols ps = Inr route \<longrightarrow>
          (\<exists>mainRoute others. ps = mainRoute # others \<and> length route = length mainRoute
             \<and> (\<forall>i<length mainRoute. \<exists>besthop.
                   getMaxPart (mainRoute ! i) = Some besthop
                   \<and> route ! i = \<lparr>name = name besthop, toTokenAddress = toTokenAddress besthop\<rparr>)))"
proof -
  have extraction: "\<exists>mainRoute others. ps = mainRoute # others \<and> length route = length mainRoute
             \<and> (\<forall>i<length mainRoute. \<exists>besthop.
                   getMaxPart (mainRoute ! i) = Some besthop
                   \<and> route ! i = \<lparr>name = name besthop, toTokenAddress = toTokenAddress besthop\<rparr>)"
    if "getProtocols ps = Inr route" for ps route
  proof (cases ps)
    case Nil
    with that show ?thesis by (simp add: getProtocols_def)
  next
    case (Cons mainRoute others)
    with that have "getProtocols_for mainRoute [] = Inr route"
      by (simp add: getProtocols_def)
    from getProtocols_for_steps [OF this] Cons show ?thesis
      by (auto simp: all_set_conv_all_nth)
  qed
  show ?thesis
    using checkArbitrage_success [where sendRequest = sendRequest and w = w, OF assms] extraction
    by simp
qed

text \<open>
  The end-to-end scenario of the spec: leg 1 returns \<open>10.6 * 10^18\<close>, leg 2 returns
  \<open>10.7 * 10^18\<close>.
\<close>

theorem routes_returned_as_received_witness:
  "baseAmount exampleConfig DAI = Inr 10000000000000000000
   \<and> thresholdAmount exampleConfig DAI = Inr 10500000000000000000
   \<and> scripted (get1inchQuoteCallUrl exampleConfig (chainId exampleConfig) (address DAI)
          (address WETH) (BigNumber_toString 10000000000000000000))
        [Quote leg1Quote, Quote (leg2Quote ''10700000000000000000'')]
       = (Quote leg1Quote, [Quote (leg2Quote ''10700000000000000000'')])
   \<and> scripted (get1inchQuoteCallUrl exampleConfig (chainId exampleConfig) (address WETH)
          (address DAI) (res_toTokenAmount leg1Quote))
        [Quote (leg2Quote ''10700000000000000000'')]
       = (Quote (leg2Quote ''10700000000000000000''), [])
   \<and> BigNumber_from (res_toTokenAmount (leg2Quote ''10700000000000000000''))
       = Inr 10700000000000000000
   \<and> formatUnits (res_fromTokenAmount leg1Quote) (decimals (res_fromToken leg1Quote))
       = Inr (FormatUnits 10000000000000000000 18)
   \<and> formatUnits (res_toTokenAmount (leg2Quote ''10700000000000000000''))
         (decimals (res_toToken (leg2Quote ''10700000000000000000'')))
       = Inr (FormatUnits 10700000000000000000 18)
   \<and> (\<exists>isProfitable shown.
         fst (checkArbitrage exampleConfig scripted DAI WETH
                [Quote leg1Quote, Quote (leg2Quote ''10700000000000000000'')])
           = Inr (isProfitable, Some outboundSplits, Some returnSplits, shown))
   \<and> length (hd outboundSplits) = 2
   \<and> getProtocols outboundSplits =
       Inr [\<lparr>name = ''POLYGON_SUSHISWAP'', toTokenAddress = ''0x2791''\<rparr>,
            \<lparr>name = ''POLYGON_SUSHISWAP'', toTokenAddress = ''0x7ceB''\<rparr>]"
proof -
  have s1: "scripted (get1inchQuoteCallUrl exampleConfig (chainId exampleConfig) (address DAI)
          (address WETH) (BigNumber_toString 10000000000000000000))
        [Quote leg1Quote, Quote (leg2Quote ''10700000000000000000'')]
       = (Quote leg1Quote, [Quote (leg2Quote ''10700000000000000000'')])"
    by simp
  have s2: "scripted (get1inchQuoteCallUrl exampleConfig (chainId exampleConfig) (address WETH)
          (address DAI) (res_toTokenAmount leg1Quote))
        [Quote (leg2Quote ''10700000000000000000'')]
       = (Quote (leg2Quote ''10700000000000000000''), [])"
    by simp
  have n: "BigNumber_from (res_toTokenAmount (leg2Quote ''10700000000000000000''))
       = Inr 10700000000000000000"
    by (simp add: example_quotes BigNumber_from_examples)
  have f: "formatUnits (res_fromTokenAmount leg1Quote) (decimals (res_fromToken leg1Quote))
       = Inr (FormatUnits 10000000000000000000 18)"
    by (simp add: example_quotes formatUnits_examples)
  have t: "formatUnits (res_toTokenAmount (leg2Quote ''10700000000000000000''))
         (decimals (res_toToken (leg2Quote ''10700000000000000000'')))
       = Inr (FormatUnits 10700000000000000000 18)"
    by (simp add: example_quotes formatUnits_examples)
  have raw: "\<exists>isProfitable shown.
         fst (checkArbitrage exampleConfig scripted DAI WETH
                [Quote leg1Quote, Quote (leg2Quote ''10700000000000000000'')])
           = Inr (isProfitable, Some outboundSplits, Some returnSplits, shown)"
    using routes_returned_as_received [where sendRequest = scripted,
        OF example_baseAmount example_thresholdAmount s1 s2 n f t]
    by (simp add: example_quotes)
  have hops: "length (hd outboundSplits) = 2"
    by (simp add: outboundSplits_def)
  show ?thesis
    using example_baseAmount example_thresholdAmount s1 s2 n f t raw hops example_routes(1)
    by blast
qed

text \<open>
  C3 as stated fails in that scenario: the evaluation returns leg 1's and leg 2's nested
  structures, which are not the figures of the flattened routes that \<open>getProtocols\<close>
  extracts from them.
\<close>

theorem routes_flattened_counterexample:
  "fst (checkArbitrage exampleConfig scripted DAI WETH
          [Quote leg1Quote, Quote (leg2Quote ''10700000000000000000'')])
     = Inr (True, Some outboundSplits, Some returnSplits,
            Some (ToFixed2 (FormatUnits 10700000000000000000 18),
                  ChalkDifference (FormatUnits 10000000000000000000 18)
                                  (FormatUnits 10700000000000000000 18),
                  ChalkPercentage (FormatUnits 10000000000000000000 18)
                                  (FormatUnits 10700000000000000000 18)))
   \<and> getProtocols outboundSplits =
       Inr [\<lparr>name = ''POLYGON_SUSHISWAP'', toTokenAddress = ''0x2791''\<rparr>,
            \<lparr>name = ''POLYGON_SUSHISWAP'', toTokenAddress = ''0x7ceB''\<rparr>]
   \<and> js_protocols outboundSplits \<noteq>
       js_route [\<lparr>name = ''POLYGON_SUSHISWAP'', toTokenAddress = ''0x2791''\<rparr>,
                 \<lparr>name = ''POLYGON_SUSHISWAP'', toTokenAddress = ''0x7ceB''\<rparr>]
   \<and> getProtocols returnSplits =
       Inr [\<lparr>name = ''POLYGON_QUICKSWAP'', toTokenAddress = ''0x8f3C''\<rparr>]
   \<and> js_protocols returnSplits \<noteq>
       js_route [\<lparr>name = ''POLYGON_QUICKSWAP'', toTokenAddress = ''0x8f3C''\<rparr>]"
proof -
  have s1: "scripted (get1inchQuoteCallUrl exampleConfig (chainId exampleConfig) (address DAI)
          (address WETH) (BigNumber_toString 10000000000000000000))
        [Quote leg1Quote, Quote (leg2Quote ''10700000000000000000'')]
       = (Quote leg1Quote, [Quote (leg2Quote ''10700000000000000000'')])"
    by simp
  have s2: "scripted (get1inchQuoteCallUrl exampleConfig (chainId exampleConfig) (address WETH)
          (address DAI) (res_toTokenAmount leg1Quote))
        [Quote (leg2Quote ''10700000000000000000'')]
       = (Quote (leg2Quote ''10700000000000000000''), [])"
    by simp
  have n: "BigNumber_from (res_toTokenAmount (leg2Quote ''10700000000000000000''))
       = Inr 10700000000000000000"
    by (simp add: example_quotes BigNumber_from_examples)
  have f: "formatUnits (res_fromTokenAmount leg1Quote) (decimals (res_fromToken leg1Quote))
       = Inr (FormatUnits 10000000000000000000 18)"
    by (simp add: example_quotes formatUnits_examples)
  have t: "formatUnits (res_toTokenAmount (leg2Quote ''10700000000000000000''))
         (decimals (res_toToken (leg2Quote ''10700000000000000000'')))
       = Inr (FormatUnits 10700000000000000000 18)"
    by (simp add: example_quotes formatUnits_examples)
  have run: "fst (checkArbitrage exampleConfig scripted DAI WETH
          [Quote leg1Quote, Quote (leg2Quote ''10700000000000000000'')])
     = Inr (True, Some outboundSplits, Some returnSplits,
            Some (ToFixed2 (FormatUnits 10700000000000000000 18),
                  ChalkDifference (FormatUnits 10000000000000000000 18)
                                  (FormatUnits 10700000000000000000 18),
                  ChalkPercentage (FormatUnits 10000000000000000000 18)
                                  (FormatUnits 10700000000000000000 18)))"
    using checkArbitrage_success [where sendRequest = scripted,
        OF example_baseAmount example_thresholdAmount s1 s2 n f t]
    by (simp add: example_quotes)
  have outbound: "js_protocols outboundSplits \<noteq>
       js_route [\<lparr>name = ''POLYGON_SUSHISWAP'', toTokenAddress = ''0x2791''\<rparr>,
                 \<lparr>name = ''POLYGON_SUSHISWAP'', toTokenAddress = ''0x7ceB''\<rparr>]"
    by (simp add: js_protocols_def js_route_def outboundSplits_def)
  have return: "js_protocols returnSplits \<noteq>
       js_route [\<lparr>name = ''POLYGON_QUICKSWAP'', toTokenAddress = ''0x8f3C''\<rparr>]"
    by (simp add: js_protocols_def js_route_def js_IRoute_def returnSplits_def)
  show ?thesis
    using run example_routes outbound return by blast
qed

end
